theory Spec2Isabelle
  imports Main "HOL-Library.Word" "HOL-Library.Multiset" "HOL-Library.Product_Lexorder"
begin

unbundle bit_operations_syntax

section \<open>Reflection tree construction (gl\_shader\_refl.cpp, ReconstructVarTree)\<close>

subsection \<open>Data model\<close>

text \<open>
  The values of \<open>GL_TYPE\<close> that the four switches of \<open>ReconstructVarTree\<close> name, and
  one constructor for every other value (samplers, images, ...): the \<open>default\<close> branch.
\<close>

datatype GLtype =
    eGL_FLOAT_VEC4 | eGL_FLOAT_VEC3 | eGL_FLOAT_VEC2 | eGL_FLOAT
  | eGL_FLOAT_MAT4 | eGL_FLOAT_MAT3 | eGL_FLOAT_MAT2
  | eGL_FLOAT_MAT4x2 | eGL_FLOAT_MAT4x3 | eGL_FLOAT_MAT3x4
  | eGL_FLOAT_MAT3x2 | eGL_FLOAT_MAT2x4 | eGL_FLOAT_MAT2x3
  | eGL_DOUBLE_VEC4 | eGL_DOUBLE_VEC3 | eGL_DOUBLE_VEC2 | eGL_DOUBLE
  | eGL_DOUBLE_MAT4 | eGL_DOUBLE_MAT3 | eGL_DOUBLE_MAT2
  | eGL_DOUBLE_MAT4x2 | eGL_DOUBLE_MAT4x3 | eGL_DOUBLE_MAT3x4
  | eGL_DOUBLE_MAT3x2 | eGL_DOUBLE_MAT2x4 | eGL_DOUBLE_MAT2x3
  | eGL_UNSIGNED_INT_VEC4 | eGL_UNSIGNED_INT_VEC3 | eGL_UNSIGNED_INT_VEC2 | eGL_UNSIGNED_INT
  | eGL_BOOL_VEC4 | eGL_BOOL_VEC3 | eGL_BOOL_VEC2 | eGL_BOOL
  | eGL_INT_VEC4 | eGL_INT_VEC3 | eGL_INT_VEC2 | eGL_INT
  | eGL_OTHER

datatype VarType = eVar_Float | eVar_Double | eVar_UInt | eVar_Int

text \<open>
  What the two driver queries of \<open>ReconstructVarTree\<close> return for one variable:
  \<open>values[0]\<close>, \<open>values[2]\<close> .. \<open>values[6]\<close> and the name string. The driver reports
  \<open>values[1]\<close> (\<open>GL_NAME_LENGTH\<close>) as the length of the name plus its terminator, so
  the source's \<open>c = values[1] - 1\<close> is the length of \<open>res_name\<close>.
\<close>

record GLresource =
  res_type :: GLtype
  res_location :: int
  res_block_index :: int
  res_array_size :: int
  res_offset :: int
  res_is_row_major :: int
  res_name :: string

record Descriptor =
  var_type :: VarType
  rows :: nat
  cols :: nat
  elements :: nat
  rowMajorStorage :: bool
  type_name :: string

text \<open>
  \<open>DynShaderConstant\<close>: the name, \<open>reg.vec\<close>, \<open>reg.comp\<close>, \<open>type.descriptor\<close> and
  \<open>type.members\<close>. The unsigned 32-bit fields are natural numbers: the code only
  assigns, compares and takes maxima and minima of them.
\<close>

datatype DynShaderConstant =
  DynShaderConstant (name: string) (reg_vec: nat) (reg_comp: nat)
    (descriptor: Descriptor) (members: "DynShaderConstant list")

text \<open>
  Undefined behaviour of the source is a value of the model: a read outside a string or
  an array, and an overflow of the \<open>int\<close> array index.
\<close>

datatype fault = OutOfBoundsRead | SignedOverflow

datatype logmsg =
    WarnNoParentBlock string int
  | WarnNakedArray

record TreeState =
  parentBlocks :: "DynShaderConstant list list"
  defaultBlock :: "DynShaderConstant list option"
  warnings :: "logmsg list"

subsection \<open>Type classification (the four switches on \<open>values[0]\<close>)\<close>

definition float_types :: "GLtype list" where
  "float_types = [eGL_FLOAT_VEC4, eGL_FLOAT_VEC3, eGL_FLOAT_VEC2, eGL_FLOAT,
     eGL_FLOAT_MAT4, eGL_FLOAT_MAT3, eGL_FLOAT_MAT2, eGL_FLOAT_MAT4x2, eGL_FLOAT_MAT4x3,
     eGL_FLOAT_MAT3x4, eGL_FLOAT_MAT3x2, eGL_FLOAT_MAT2x4, eGL_FLOAT_MAT2x3]"

definition double_types :: "GLtype list" where
  "double_types = [eGL_DOUBLE_VEC4, eGL_DOUBLE_VEC3, eGL_DOUBLE_VEC2, eGL_DOUBLE,
     eGL_DOUBLE_MAT4, eGL_DOUBLE_MAT3, eGL_DOUBLE_MAT2, eGL_DOUBLE_MAT4x2, eGL_DOUBLE_MAT4x3,
     eGL_DOUBLE_MAT3x4, eGL_DOUBLE_MAT3x2, eGL_DOUBLE_MAT2x4, eGL_DOUBLE_MAT2x3]"

definition uint_types :: "GLtype list" where
  "uint_types = [eGL_UNSIGNED_INT_VEC4, eGL_UNSIGNED_INT_VEC3, eGL_UNSIGNED_INT_VEC2,
     eGL_UNSIGNED_INT, eGL_BOOL_VEC4, eGL_BOOL_VEC3, eGL_BOOL_VEC2, eGL_BOOL]"

definition int_types :: "GLtype list" where
  "int_types = [eGL_INT_VEC4, eGL_INT_VEC3, eGL_INT_VEC2, eGL_INT]"

definition classify :: "GLtype \<Rightarrow> VarType option" where
  "classify t =
     (if t \<in> set float_types then Some eVar_Float
      else if t \<in> set double_types then Some eVar_Double
      else if t \<in> set uint_types then Some eVar_UInt
      else if t \<in> set int_types then Some eVar_Int
      else None)"

definition type_rows :: "GLtype \<Rightarrow> nat" where
  "type_rows t =
     (if t \<in> set [eGL_FLOAT_MAT4, eGL_DOUBLE_MAT4, eGL_FLOAT_MAT2x4, eGL_DOUBLE_MAT2x4,
                   eGL_FLOAT_MAT3x4, eGL_DOUBLE_MAT3x4] then 4
      else if t \<in> set [eGL_FLOAT_MAT3, eGL_DOUBLE_MAT3, eGL_FLOAT_MAT4x3, eGL_DOUBLE_MAT4x3,
                   eGL_FLOAT_MAT2x3, eGL_DOUBLE_MAT2x3] then 3
      else if t \<in> set [eGL_FLOAT_MAT2, eGL_DOUBLE_MAT2, eGL_FLOAT_MAT4x2, eGL_DOUBLE_MAT4x2,
                   eGL_FLOAT_MAT3x2, eGL_DOUBLE_MAT3x2] then 2
      else 1)"

text \<open>
  The third switch leaves \<open>cols\<close> unassigned in its \<open>default\<close> branch; that branch is
  only reached for types the first switch has already returned on, and is 0 here.
\<close>

definition type_cols :: "GLtype \<Rightarrow> nat" where
  "type_cols t =
     (if t \<in> set [eGL_FLOAT_VEC4, eGL_FLOAT_MAT4, eGL_FLOAT_MAT4x2, eGL_FLOAT_MAT4x3,
                   eGL_DOUBLE_VEC4, eGL_DOUBLE_MAT4, eGL_DOUBLE_MAT4x2, eGL_DOUBLE_MAT4x3,
                   eGL_UNSIGNED_INT_VEC4, eGL_BOOL_VEC4, eGL_INT_VEC4] then 4
      else if t \<in> set [eGL_FLOAT_VEC3, eGL_FLOAT_MAT3, eGL_FLOAT_MAT3x4, eGL_FLOAT_MAT3x2,
                   eGL_DOUBLE_VEC3, eGL_DOUBLE_MAT3, eGL_DOUBLE_MAT3x4, eGL_DOUBLE_MAT3x2,
                   eGL_UNSIGNED_INT_VEC3, eGL_BOOL_VEC3, eGL_INT_VEC3] then 3
      else if t \<in> set [eGL_FLOAT_VEC2, eGL_FLOAT_MAT2, eGL_FLOAT_MAT2x4, eGL_FLOAT_MAT2x3,
                   eGL_DOUBLE_VEC2, eGL_DOUBLE_MAT2, eGL_DOUBLE_MAT2x4, eGL_DOUBLE_MAT2x3,
                   eGL_UNSIGNED_INT_VEC2, eGL_BOOL_VEC2, eGL_INT_VEC2] then 2
      else if t \<in> set [eGL_FLOAT, eGL_DOUBLE, eGL_UNSIGNED_INT, eGL_INT, eGL_BOOL] then 1
      else 0)"

fun glsl_type_name :: "GLtype \<Rightarrow> string" where
  "glsl_type_name eGL_FLOAT_VEC4 = ''vec4''"
| "glsl_type_name eGL_FLOAT_VEC3 = ''vec3''"
| "glsl_type_name eGL_FLOAT_VEC2 = ''vec2''"
| "glsl_type_name eGL_FLOAT = ''float''"
| "glsl_type_name eGL_FLOAT_MAT4 = ''mat4''"
| "glsl_type_name eGL_FLOAT_MAT3 = ''mat3''"
| "glsl_type_name eGL_FLOAT_MAT2 = ''mat2''"
| "glsl_type_name eGL_FLOAT_MAT4x2 = ''mat4x2''"
| "glsl_type_name eGL_FLOAT_MAT4x3 = ''mat4x3''"
| "glsl_type_name eGL_FLOAT_MAT3x4 = ''mat3x4''"
| "glsl_type_name eGL_FLOAT_MAT3x2 = ''mat3x2''"
| "glsl_type_name eGL_FLOAT_MAT2x4 = ''mat2x4''"
| "glsl_type_name eGL_FLOAT_MAT2x3 = ''mat2x3''"
| "glsl_type_name eGL_DOUBLE_VEC4 = ''dvec4''"
| "glsl_type_name eGL_DOUBLE_VEC3 = ''dvec3''"
| "glsl_type_name eGL_DOUBLE_VEC2 = ''dvec2''"
| "glsl_type_name eGL_DOUBLE = ''double''"
| "glsl_type_name eGL_DOUBLE_MAT4 = ''dmat4''"
| "glsl_type_name eGL_DOUBLE_MAT3 = ''dmat3''"
| "glsl_type_name eGL_DOUBLE_MAT2 = ''dmat2''"
| "glsl_type_name eGL_DOUBLE_MAT4x2 = ''dmat4x2''"
| "glsl_type_name eGL_DOUBLE_MAT4x3 = ''dmat4x3''"
| "glsl_type_name eGL_DOUBLE_MAT3x4 = ''dmat3x4''"
| "glsl_type_name eGL_DOUBLE_MAT3x2 = ''dmat3x2''"
| "glsl_type_name eGL_DOUBLE_MAT2x4 = ''dmat2x4''"
| "glsl_type_name eGL_DOUBLE_MAT2x3 = ''dmat2x3''"
| "glsl_type_name eGL_UNSIGNED_INT_VEC4 = ''uvec4''"
| "glsl_type_name eGL_UNSIGNED_INT_VEC3 = ''uvec3''"
| "glsl_type_name eGL_UNSIGNED_INT_VEC2 = ''uvec2''"
| "glsl_type_name eGL_UNSIGNED_INT = ''uint''"
| "glsl_type_name eGL_BOOL_VEC4 = ''bvec4''"
| "glsl_type_name eGL_BOOL_VEC3 = ''bvec3''"
| "glsl_type_name eGL_BOOL_VEC2 = ''bvec2''"
| "glsl_type_name eGL_BOOL = ''bool''"
| "glsl_type_name eGL_INT_VEC4 = ''ivec4''"
| "glsl_type_name eGL_INT_VEC3 = ''ivec3''"
| "glsl_type_name eGL_INT_VEC2 = ''ivec2''"
| "glsl_type_name eGL_INT = ''int''"
| "glsl_type_name eGL_OTHER = ''''"

subsection \<open>Storage order (\<open>var.reg\<close>)\<close>

text \<open>
  \<open>values[5]\<close> is the offset, \<open>values[2]\<close> the location; \<open>~0U\<close> is 4294967295. The
  offsets are not negative where they are divided, so C's division is \<open>div\<close>.
\<close>

definition var_reg :: "GLresource \<Rightarrow> nat \<times> nat" where
  "var_reg r =
     (if res_offset r = -1 \<and> res_location r \<ge> 0 then (nat (res_location r), 0)
      else if res_offset r \<ge> 0
        then (nat (res_offset r div 16), nat ((res_offset r div 4) mod 4))
      else (4294967295, 4294967295))"

text \<open>
  Lines 416 to 622: the variable before its name is read, or \<open>None\<close> where the first
  switch returns (not a variable). \<open>RDCMAX(1, values[4])\<close> is the larger of the two.
\<close>

definition init_var :: "GLresource \<Rightarrow> DynShaderConstant option" where
  "init_var r =
     (case classify (res_type r) of
        None \<Rightarrow> None
      | Some vt \<Rightarrow>
          Some (DynShaderConstant [] (fst (var_reg r)) (snd (var_reg r))
            \<lparr> var_type = vt, rows = type_rows (res_type r), cols = type_cols (res_type r),
              elements = nat (max 1 (res_array_size r)),
              rowMajorStorage = (res_is_row_major r > 0),
              type_name = glsl_type_name (res_type r) \<rparr> []))"

subsection \<open>The trailing \<open>[0]\<close> (lines 624 to 633)\<close>

text \<open>
  \<open>var.name[i]\<close>: the string holds \<open>length s\<close> characters; an index below 0 (which
  the conversion to \<open>size_t\<close> wraps around) or beyond them is outside the string.
\<close>

definition name_at :: "string \<Rightarrow> int \<Rightarrow> fault + char" where
  "name_at s i =
     (if 0 \<le> i \<and> i < int (length s) then Inr (s ! nat i) else Inl OutOfBoundsRead)"

text \<open>
  The condition \<open>var.name[c-3] == '[' && var.name[c-2] == '0' && var.name[c-1] == ']'\<close>
  with \<open>c = values[1] - 1\<close>, evaluated left to right, each conjunct only when the
  ones before it hold.
\<close>

definition ends_in_index0 :: "string \<Rightarrow> fault + bool" where
  "ends_in_index0 s =
     (let c = int (length s) in
      case name_at s (c - 3) of Inl f \<Rightarrow> Inl f
      | Inr a \<Rightarrow> if a \<noteq> CHR ''['' then Inr False else
        (case name_at s (c - 2) of Inl f \<Rightarrow> Inl f
         | Inr b \<Rightarrow> if b \<noteq> CHR ''0'' then Inr False else
           (case name_at s (c - 1) of Inl f \<Rightarrow> Inl f
            | Inr d \<Rightarrow> Inr (d = CHR '']''))))"

text \<open>The positions of \<open>var.name\<close> that this condition indexes, in the order it reads them.\<close>

definition trailing_reads :: "string \<Rightarrow> int list" where
  "trailing_reads s =
     (let c = int (length s) in
      if name_at s (c - 3) \<noteq> Inr CHR ''['' then [c - 3]
      else if name_at s (c - 2) \<noteq> Inr CHR ''0'' then [c - 3, c - 2]
      else [c - 3, c - 2, c - 1])"

definition in_bounds :: "string \<Rightarrow> int \<Rightarrow> bool" where
  "in_bounds s i = (0 \<le> i \<and> i < int (length s))"

fun set_name :: "string \<Rightarrow> DynShaderConstant \<Rightarrow> DynShaderConstant" where
  "set_name n (DynShaderConstant _ v c d ms) = DynShaderConstant n v c d ms"

fun set_elements :: "nat \<Rightarrow> DynShaderConstant \<Rightarrow> DynShaderConstant" where
  "set_elements e (DynShaderConstant n v c d ms) = DynShaderConstant n v c (d\<lparr>elements := e\<rparr>) ms"

fun set_members :: "DynShaderConstant list \<Rightarrow> DynShaderConstant \<Rightarrow> DynShaderConstant" where
  "set_members ms (DynShaderConstant n v c d _) = DynShaderConstant n v c d ms"

text \<open>
  Lines 624 to 633 on the variable of \<open>init_var\<close>: the name with a trailing \<open>[0]\<close>
  taken off, or else \<open>elements\<close> set to 0.
\<close>

definition trim_name :: "GLresource \<Rightarrow> DynShaderConstant \<Rightarrow> fault + DynShaderConstant" where
  "trim_name r var =
     (case ends_in_index0 (res_name r) of
        Inl f \<Rightarrow> Inl f
      | Inr True \<Rightarrow> Inr (set_name (take (length (res_name r) - 3) (res_name r)) var)
      | Inr False \<Rightarrow> Inr (set_elements 0 (set_name (res_name r) var)))"

subsection \<open>The walk over the name (lines 648 to 753)\<close>

definition is_sep :: "char \<Rightarrow> bool" where
  "is_sep ch = (ch = CHR ''.'' \<or> ch = CHR ''['')"

definition is_digit :: "char \<Rightarrow> bool" where
  "is_digit ch = ((of_char CHR ''0'' :: nat) \<le> of_char ch \<and> (of_char ch :: nat) \<le> of_char CHR ''9'')"

definition INT_MAX :: int where
  "INT_MAX = 2147483647"

text \<open>
  The loop over the digits of an array index: \<open>arrayIdx *= 10; arrayIdx += int(*nm) -
  int('0'); nm++\<close>, on C's \<open>int\<close>. It returns the index and the text after the digits.
\<close>

fun parse_index :: "int \<Rightarrow> string \<Rightarrow> fault + (int \<times> string)" where
  "parse_index arrayIdx [] = Inr (arrayIdx, [])"
| "parse_index arrayIdx (ch # nm) =
     (if is_digit ch then
        (if arrayIdx * 10 > INT_MAX then Inl SignedOverflow
         else if arrayIdx * 10 + (of_char ch - of_char CHR ''0'') > INT_MAX then Inl SignedOverflow
         else parse_index (arrayIdx * 10 + (of_char ch - of_char CHR ''0'')) nm)
      else Inr (arrayIdx, ch # nm))"

text \<open>Lines 696 to 706: the structure node built for a base name.\<close>

definition parent_var :: "DynShaderConstant \<Rightarrow> string \<Rightarrow> bool \<Rightarrow> int \<Rightarrow> DynShaderConstant" where
  "parent_var var base isarray arrayIdx =
     DynShaderConstant base (reg_vec var) 0
       \<lparr> var_type = var_type (descriptor var), rows = 0, cols = 0,
         elements = (if isarray then max 1 (nat (arrayIdx + 1)) else 0),
         rowMajorStorage = False, type_name = ''struct'' \<rparr> []"

text \<open>The loop of lines 711 to 727 looks for the first sibling with the base name.\<close>

fun find_member :: "string \<Rightarrow> DynShaderConstant list \<Rightarrow> nat option" where
  "find_member base [] = None"
| "find_member base (m # ms) =
     (if name m = base then Some 0 else map_option Suc (find_member base ms))"

text \<open>Lines 718 to 720: a sibling that was found takes the larger element count and the smaller \<open>reg.vec\<close>.\<close>

fun merge_parent :: "DynShaderConstant \<Rightarrow> DynShaderConstant \<Rightarrow> DynShaderConstant" where
  "merge_parent parentVar (DynShaderConstant n v c d ms) =
     DynShaderConstant n (min v (reg_vec parentVar)) c
       (d\<lparr>elements := max (elements d) (elements (descriptor parentVar))\<rparr>) ms"


text \<open>
  One turn of the \<open>while\<close> loop up to line 694, on the text \<open>nm\<close> from the pointer
  to the terminator. \<open>Leaf\<close>: no \<open>.\<close> and no \<open>[\<close> is left, the loop ends.
  \<open>Member base isarray arrayIdx rest\<close>: a base name, its index and the text after the
  separator. \<open>NakedArray\<close>: an index that no \<open>.\<close> follows (lines 682 to 693). After the
  digits the source overwrites one character (asserted to be \<open>]\<close>) and steps over it;
  when the text ends with the digits, that step leaves the string. \<open>RDCASSERT\<close> only
  reports and is left out.
\<close>

datatype segment = Leaf | NakedArray | Member string bool int string

definition next_segment :: "string \<Rightarrow> fault + segment" where
  "next_segment nm =
     (if \<not> list_ex is_sep nm then Inr Leaf
      else if hd (dropWhile (\<lambda>ch. \<not> is_sep ch) nm) = CHR ''['' then
        (case parse_index 0 (tl (dropWhile (\<lambda>ch. \<not> is_sep ch) nm)) of
           Inl f \<Rightarrow> Inl f
         | Inr (arrayIdx, r2) \<Rightarrow>
             if r2 = [] then Inl OutOfBoundsRead
             else if tl r2 = [] \<or> hd (tl r2) \<noteq> CHR ''.'' then Inr NakedArray
             else if arrayIdx + 1 > INT_MAX then Inl SignedOverflow
             else Inr (Member (takeWhile (\<lambda>ch. \<not> is_sep ch) nm) True arrayIdx (tl (tl r2))))
      else Inr (Member (takeWhile (\<lambda>ch. \<not> is_sep ch) nm) False 0
                  (tl (dropWhile (\<lambda>ch. \<not> is_sep ch) nm))))"







subsection \<open>One record, and all of them\<close>

text \<open>
  Lines 416 to 633 together: \<open>None\<close> where the record is not a variable, a fault
  where the name is read outside its characters.

  \<open>ReconstructVarTree\<close> with the state it writes to: the array \<open>parentBlocks\<close>, the
  list \<open>defaultBlock\<close> points to (\<open>None\<close> for \<open>NULL\<close>) and the log of warnings. The
  array holds \<open>length (parentBlocks st)\<close> lists; an index outside it is a fault.
\<close>

definition read_var :: "GLresource \<Rightarrow> fault + DynShaderConstant option" where
  "read_var r =
     (case init_var r of
        None \<Rightarrow> Inr None
      | Some var0 \<Rightarrow> (case trim_name r var0 of Inl f \<Rightarrow> Inl f | Inr var \<Rightarrow> Inr (Some var)))"



text \<open>
  The state before the first record: \<open>numParentBlocks\<close> empty lists, and the empty
  \<open>globalUniforms\<close> for the uniforms (line 1396) or \<open>NULL\<close> for the buffer variables
  (line 1384).
\<close>

definition uniform_start :: "nat \<Rightarrow> TreeState" where
  "uniform_start numUBOs =
     \<lparr>parentBlocks = replicate numUBOs [], defaultBlock = Some [], warnings = []\<rparr>"

definition buffer_start :: "nat \<Rightarrow> TreeState" where
  "buffer_start numSSBOs =
     \<lparr>parentBlocks = replicate numSSBOs [], defaultBlock = None, warnings = []\<rparr>"

subsection \<open>Sorting (\<open>sort\<close>, lines 68 to 82)\<close>




section \<open>Disassembly of a SPIR-V stream (DisassembleSPIRV)\<close>

subsection \<open>What the function takes from outside this file\<close>

text \<open>
  The enumerators of \<open>spirv.h\<close> that the switch of the second pass names, and one
  constructor for every other opcode.
\<close>

datatype Op =
    OpSource | OpExtInstImport | OpMemoryModel | OpEntryPoint
  | OpFunction | OpFunctionEnd | OpName | OpOther

text \<open>
  The numbers of \<open>spirv.h\<close> and the program's \<open>printf\<close> are not in this file, so the
  model takes them as a parameter: the magic number; which enumerator a 16-bit opcode
  is; the texts of \<open>ToStr::Get\<close> for an opcode, a source language, an addressing
  model, a memory model and an execution model; and \<open>StringFormat::Fmt\<close> for the
  conversions \<open>%08x\<close>, \<open>%u\<close>, \<open>%d\<close> and \<open>% 4u\<close> of a 32-bit value.
\<close>

record SpvEnv =
  MagicNumber :: "32 word"
  op_of :: "32 word \<Rightarrow> Op"
  op_str :: "32 word \<Rightarrow> string"
  source_language_str :: "32 word \<Rightarrow> string"
  addressing_model_str :: "32 word \<Rightarrow> string"
  memory_model_str :: "32 word \<Rightarrow> string"
  execution_model_str :: "32 word \<Rightarrow> string"
  fmt_08x :: "32 word \<Rightarrow> string"
  fmt_u :: "32 word \<Rightarrow> string"
  fmt_d :: "32 word \<Rightarrow> string"
  fmt_4u :: "32 word \<Rightarrow> string"

subsection \<open>Reading the stream\<close>

datatype decode_fault = ReadPastEnd | IdOutOfBound | TitleOutOfRange

text \<open>
  \<open>(const char *)&spirv[i]\<close>: the bytes of the words from \<open>i\<close> on, lowest byte of a
  word first, up to the first zero byte. Without a zero byte the read leaves the vector.
\<close>

definition word_bytes :: "32 word \<Rightarrow> 8 word list" where
  "word_bytes w = [ucast w, ucast (drop_bit 8 w), ucast (drop_bit 16 w), ucast (drop_bit 24 w)]"

definition cstring_at :: "32 word list \<Rightarrow> nat \<Rightarrow> decode_fault + string" where
  "cstring_at spirv i =
     (if list_ex (\<lambda>b. b = 0) (concat (map word_bytes (drop i spirv)))
      then Inr (map (\<lambda>b. char_of (unat b))
                  (takeWhile (\<lambda>b. b \<noteq> 0) (concat (map word_bytes (drop i spirv)))))
      else Inl ReadPastEnd)"

text \<open>
  The header of an instruction: \<open>WordCount = spirv[it] >> 16\<close> and
  \<open>OpCode = spirv[it] & 0xffff\<close>.
\<close>

definition WordCount :: "32 word list \<Rightarrow> nat \<Rightarrow> nat" where
  "WordCount spirv it = unat (drop_bit 16 (spirv ! it))"

definition OpCode :: "32 word list \<Rightarrow> nat \<Rightarrow> 32 word" where
  "OpCode spirv it = spirv ! it AND 0xffff"

text \<open>
  Both passes are the loop \<open>while(it < spirv.size()) { ...; it += WordCount; }\<close> around
  a body. \<open>scan body spirv it s\<close> is that loop from \<open>it\<close> with the variables \<open>s\<close> of
  the body; \<open>None\<close> is a loop that does not end.
\<close>

partial_function (option) scan ::
  "(nat \<Rightarrow> 's \<Rightarrow> decode_fault + 's) \<Rightarrow> 32 word list \<Rightarrow> nat \<Rightarrow> 's \<Rightarrow> (decode_fault + 's) option" where
  "scan body spirv it s =
     (if it < length spirv then
        (case body it s of
           Inl f \<Rightarrow> Some (Inl f)
         | Inr s' \<Rightarrow> scan body spirv (it + WordCount spirv it) s')
      else Some (Inr s))"

declare scan.simps [code]

subsection \<open>Pass 1: names (lines 2150 to 2165)\<close>

text \<open>
  The body of the first loop: \<open>OpName\<close> stores the string at \<open>it + 2\<close> as the name of
  the id at \<open>it + 1\<close>. \<open>resultnames\<close> has \<open>idbound\<close> entries.
\<close>

definition name_body :: "SpvEnv \<Rightarrow> 32 word list \<Rightarrow> nat \<Rightarrow> string list \<Rightarrow> decode_fault + string list" where
  "name_body env spirv it resultnames =
     (if op_of env (OpCode spirv it) = OpName then
        (if length spirv \<le> it + 1 then Inl ReadPastEnd
         else if length resultnames \<le> unat (spirv ! (it + 1)) then Inl IdOutOfBound
         else (case cstring_at spirv (it + 2) of
                 Inl f \<Rightarrow> Inl f
               | Inr str \<Rightarrow> Inr (resultnames[unat (spirv ! (it + 1)) := str])))
      else Inr resultnames)"

text \<open>Lines 2163 to 2165: an empty name becomes \<open><i>\<close>.\<close>

definition fill_placeholders :: "SpvEnv \<Rightarrow> string list \<Rightarrow> string list" where
  "fill_placeholders env resultnames =
     map (\<lambda>i. if resultnames ! i = [] then ''<'' @ fmt_d env (of_nat i) @ ''>'' else resultnames ! i)
       [0..<length resultnames]"

subsection \<open>Pass 2: lines (lines 2167 to 2219)\<close>

text \<open>
  A line of the second pass, before it is written to the text: the number \<open>opidx\<close> when
  the line is written inside a function, the name of the opcode and the body.
\<close>

datatype DisassemblyLine =
  DisassemblyLine (index_in_scope: "32 word option") (mnemonic: string) (operands: string)

record Pass2 =
  resultnames :: "string list"
  infunc :: bool
  opidx :: "32 word"
  lines :: "DisassemblyLine list"

text \<open>
  The switch on the opcode: the body text, the names after it, \<open>infunc\<close> after it, and
  \<open>silent\<close>.
\<close>

definition switch_op ::
  "SpvEnv \<Rightarrow> 32 word list \<Rightarrow> nat \<Rightarrow> string list \<Rightarrow> bool \<Rightarrow>
     decode_fault + (string \<times> string list \<times> bool \<times> bool)" where
  "switch_op env spirv it names inside =
     (case op_of env (OpCode spirv it) of
        OpSource \<Rightarrow>
          if length spirv \<le> it + 2 then Inl ReadPastEnd
          else Inr (source_language_str env (spirv ! (it + 1)) @ '' '' @ fmt_d env (spirv ! (it + 2)),
                    names, inside, False)
      | OpExtInstImport \<Rightarrow>
          if length spirv \<le> it + 1 then Inl ReadPastEnd
          else if length names \<le> unat (spirv ! (it + 1)) then Inl IdOutOfBound
          else (case cstring_at spirv (it + 2) of
                  Inl f \<Rightarrow> Inl f
                | Inr str \<Rightarrow> Inr (str, names[unat (spirv ! (it + 1)) := str], inside, False))
      | OpMemoryModel \<Rightarrow>
          if length spirv \<le> it + 2 then Inl ReadPastEnd
          else Inr (addressing_model_str env (spirv ! (it + 1)) @ '' Addressing, ''
                      @ memory_model_str env (spirv ! (it + 2)) @ '' Memory model'',
                    names, inside, False)
      | OpEntryPoint \<Rightarrow>
          if length spirv \<le> it + 2 then Inl ReadPastEnd
          else if length names \<le> unat (spirv ! (it + 2)) then Inl IdOutOfBound
          else Inr (names ! unat (spirv ! (it + 2)) @ '' (''
                      @ execution_model_str env (spirv ! (it + 1)) @ '')'',
                    names, inside, False)
      | OpFunction \<Rightarrow> Inr ([], names, True, False)
      | OpFunctionEnd \<Rightarrow> Inr ([], names, False, False)
      | OpName \<Rightarrow> Inr ([], names, inside, True)
      | OpOther \<Rightarrow> Inr ([], names, inside, False))"

text \<open>The body of the second loop: the switch, then the line (lines 2208 to 2216).\<close>

definition format_body :: "SpvEnv \<Rightarrow> 32 word list \<Rightarrow> nat \<Rightarrow> Pass2 \<Rightarrow> decode_fault + Pass2" where
  "format_body env spirv it s =
     (case switch_op env spirv it (resultnames s) (infunc s) of
        Inl f \<Rightarrow> Inl f
      | Inr (body, names, inside, silent) \<Rightarrow>
          if inside then
            Inr \<lparr>resultnames = names, infunc = inside, opidx = opidx s + 1,
                 lines = lines s @ [DisassemblyLine (Some (opidx s)) (op_str env (OpCode spirv it)) body]\<rparr>
          else if \<not> silent then
            Inr \<lparr>resultnames = names, infunc = inside, opidx = opidx s,
                 lines = lines s @ [DisassemblyLine None (op_str env (OpCode spirv it)) body]\<rparr>
          else
            Inr \<lparr>resultnames = names, infunc = inside, opidx = opidx s, lines = lines s\<rparr>)"

text \<open>
  The text of a line: \<open>"% 4u: %s %s\n"\<close> with the number, \<open>"      %s %s\n"\<close>
  without.
\<close>

definition newline :: string where
  "newline = [CHR 0x0A]"

definition render :: "SpvEnv \<Rightarrow> DisassemblyLine \<Rightarrow> string" where
  "render env l =
     (case index_in_scope l of
        Some n \<Rightarrow> fmt_4u env n @ '': '' @ mnemonic l @ '' '' @ operands l @ newline
      | None \<Rightarrow> ''      '' @ mnemonic l @ '' '' @ operands l @ newline)"

subsection \<open>The function\<close>

definition header :: "string list" where
  "header = [''Vertex Shader'', ''Tessellation Control Shader'',
     ''Tessellation Evaluation Shader'', ''Geometry Shader'', ''Fragment Shader'',
     ''Compute Shader'']"

text \<open>
  The two passes from the first instruction at word 5; \<open>idbound\<close> is \<open>spirv[3]\<close>.
  The lines of the second pass, or a fault, or \<open>None\<close> when a loop does not end.
\<close>

definition decode_lines :: "SpvEnv \<Rightarrow> 32 word list \<Rightarrow> (decode_fault + DisassemblyLine list) option" where
  "decode_lines env spirv =
     (case scan (name_body env spirv) spirv 5 (replicate (unat (spirv ! 3)) []) of
        None \<Rightarrow> None
      | Some (Inl f) \<Rightarrow> Some (Inl f)
      | Some (Inr names) \<Rightarrow>
          (case scan (format_body env spirv) spirv 5
                  \<lparr>resultnames = fill_placeholders env names, infunc = False, opidx = 0, lines = []\<rparr> of
             None \<Rightarrow> None
           | Some (Inl f) \<Rightarrow> Some (Inl f)
           | Some (Inr s) \<Rightarrow> Some (Inr (lines s))))"

text \<open>
  \<open>DisassembleSPIRV\<close> with \<open>idx = ShaderIdx(shadType)\<close>: the text it leaves in
  \<open>disasm\<close>. The words 0 to 4 are read before the passes.
\<close>

definition DisassembleSPIRV :: "SpvEnv \<Rightarrow> nat \<Rightarrow> 32 word list \<Rightarrow> (decode_fault + string) option" where
  "DisassembleSPIRV env idx spirv =
     (if length header \<le> idx then Some (Inl TitleOutOfRange)
      else if spirv = [] then Some (Inl ReadPastEnd)
      else if spirv ! 0 \<noteq> MagicNumber env then
        Some (Inr (header ! idx @ '' SPIR-V:'' @ newline @ newline
                   @ ''Unrecognised magic number '' @ fmt_08x env (spirv ! 0)))
      else if length spirv < 5 then Some (Inl ReadPastEnd)
      else
        (case decode_lines env spirv of
           None \<Rightarrow> None
         | Some (Inl f) \<Rightarrow> Some (Inl f)
         | Some (Inr ls) \<Rightarrow>
             Some (Inr (header ! idx @ '' SPIR-V:'' @ newline @ newline
                        @ ''Version '' @ fmt_u env (spirv ! 1) @ '', Generator ''
                        @ fmt_08x env (spirv ! 2) @ '' (''
                        @ (if spirv ! 2 = 0x051a00bb then ''glslang'' else ''Unrecognised'')
                        @ '')'' @ newline
                        @ ''IDs up to <'' @ fmt_u env (spirv ! 3) @ ''>'' @ newline
                        @ (if spirv ! 4 \<noteq> 0 then ''Reserved word 4 is non-zero'' @ newline else [])
                        @ newline
                        @ concat (map (render env) ls)))))"

subsection \<open>Vocabulary of the statements\<close>



text \<open>
  The storage order of a node, and "not after" in it. A list and every members list
  below it in ascending storage order.
\<close>

definition storage_order :: "DynShaderConstant \<Rightarrow> nat \<times> nat" where
  "storage_order v = (reg_vec v, reg_comp v)"




text \<open>
  A sort that keeps the discovery order of nodes with the same storage order, at every
  level: one of the results \<open>sort\<close> can have.
\<close>

fun stable_sorted :: "DynShaderConstant \<Rightarrow> DynShaderConstant" where
  "stable_sorted (DynShaderConstant n v c d ms) =
     DynShaderConstant n v c d (sort_key storage_order (map stable_sorted ms))"


text \<open>
  No two siblings with the same name, in a list and in every members list below it.
\<close>

fun unique_below :: "DynShaderConstant \<Rightarrow> bool" where
  "unique_below (DynShaderConstant n v c d ms) =
     (distinct (map name ms) \<and> (\<forall>m\<in>set ms. unique_below m))"

definition names_unique :: "DynShaderConstant list \<Rightarrow> bool" where
  "names_unique pm = (distinct (map name pm) \<and> (\<forall>m\<in>set pm. unique_below m))"

definition state_unique :: "TreeState \<Rightarrow> bool" where
  "state_unique st =
     ((\<forall>pm\<in>set (parentBlocks st). names_unique pm)
      \<and> (case defaultBlock st of None \<Rightarrow> True | Some dm \<Rightarrow> names_unique dm))"







text \<open>
  The node that a path of names leads to: the first sibling with the first name, then
  the first of its members with the second name, and so on.
\<close>

fun node_at :: "string list \<Rightarrow> DynShaderConstant list \<Rightarrow> DynShaderConstant option" where
  "node_at [] pm = None"
| "node_at (b # q) pm =
     (case find_member b pm of
        None \<Rightarrow> None
      | Some i \<Rightarrow> if q = [] then Some (pm ! i) else node_at q (members (pm ! i)))"





text \<open>
  The lists of the state: a parent block or the default block. The list a record goes
  to (line 637), and the index with which a record is seen at a path in a list.
\<close>

datatype slot = Block nat | Default

definition list_at :: "TreeState \<Rightarrow> slot \<Rightarrow> DynShaderConstant list option" where
  "list_at st sl =
     (case sl of
        Block b \<Rightarrow> if b < length (parentBlocks st) then Some (parentBlocks st ! b) else None
      | Default \<Rightarrow> defaultBlock st)"







text \<open>
  The instruction starts that the loop passes from a start \<open>a\<close>: \<open>a\<close> itself, and from
  a start inside the vector the one its word count leads to.
\<close>

inductive reaches :: "32 word list \<Rightarrow> nat \<Rightarrow> nat \<Rightarrow> bool"
  for spirv :: "32 word list" and a :: nat where
  reaches_start: "reaches spirv a a"
| reaches_next: "reaches spirv a b \<Longrightarrow> b < length spirv \<Longrightarrow> reaches spirv a (b + WordCount spirv b)"

text \<open>
  One choice of what is taken from outside, for the examples: the magic number and
  opcode numbers of a \<open>spirv.h\<close>, opcode texts that show the number, and a \<open>printf\<close>
  for the four conversions.
\<close>

definition digit_char :: "nat \<Rightarrow> char" where
  "digit_char n = char_of (if n < 10 then 48 + n else 87 + n)"

fun decimal_digits :: "nat \<Rightarrow> nat \<Rightarrow> string" where
  "decimal_digits 0 n = []"
| "decimal_digits (Suc fuel) n =
     (if n < 10 then [digit_char n] else decimal_digits fuel (n div 10) @ [digit_char (n mod 10)])"

definition decimal :: "32 word \<Rightarrow> string" where
  "decimal w = decimal_digits 10 (unat w)"

definition hex8 :: "32 word \<Rightarrow> string" where
  "hex8 w = map (\<lambda>i. digit_char (unat (drop_bit (4 * i) w AND 15))) [7, 6, 5, 4, 3, 2, 1, 0]"

definition example_env :: SpvEnv where
  "example_env =
     \<lparr>MagicNumber = 0x07230203,
      op_of = (\<lambda>w. if w = 1 then OpSource else if w = 4 then OpExtInstImport
                    else if w = 5 then OpMemoryModel else if w = 6 then OpEntryPoint
                    else if w = 40 then OpFunction else if w = 42 then OpFunctionEnd
                    else if w = 54 then OpName else OpOther),
      op_str = (\<lambda>w. ''Op'' @ decimal w),
      source_language_str = decimal,
      addressing_model_str = decimal,
      memory_model_str = decimal,
      execution_model_str = decimal,
      fmt_08x = hex8,
      fmt_u = decimal,
      fmt_d = (\<lambda>w. if sint w < 0 then ''-'' @ decimal (- w) else decimal w),
      fmt_4u = (\<lambda>w. replicate (4 - length (decimal w)) CHR '' '' @ decimal w)\<rparr>"

text \<open>The lines of a text: the pieces between its newline characters.\<close>

fun text_lines :: "string \<Rightarrow> string list" where
  "text_lines [] = [[]]"
| "text_lines (ch # cs) =
     (case text_lines cs of
        [] \<Rightarrow> [[]]
      | l # ls \<Rightarrow> if ch = CHR 0x0A then [] # l # ls else (ch # l) # ls)"


text \<open>
  A stream made of instructions: every instruction is a list of words that starts with
  its header, and the word count of the header is its length. The starts of the
  instructions in the stream, and the body of a loop at each of them in turn.
\<close>

definition wf_instr :: "32 word list \<Rightarrow> bool" where
  "wf_instr ins = (ins \<noteq> [] \<and> unat (drop_bit 16 (hd ins)) = length ins)"

fun offsets :: "nat \<Rightarrow> 32 word list list \<Rightarrow> nat list" where
  "offsets b [] = []"
| "offsets b (ins # inss) = b # offsets (b + length ins) inss"

fun steps :: "(nat \<Rightarrow> 's \<Rightarrow> decode_fault + 's) \<Rightarrow> nat list \<Rightarrow> 's \<Rightarrow> decode_fault + 's" where
  "steps body [] s = Inr s"
| "steps body (it # its) s =
     (case body it s of Inl f \<Rightarrow> Inl f | Inr s' \<Rightarrow> steps body its s')"

section \<open>Properties of the reflection tree\<close>

subsection \<open>Reading the name\<close>

lemma trailing_reads_in_bounds:
  assumes "3 \<le> length s"
  shows "list_all (in_bounds s) (trailing_reads s)"
  using assms by (auto simp: trailing_reads_def in_bounds_def Let_def)

lemma list_of_length3:
  assumes "length xs = 3"
  shows "\<exists>a b d. xs = [a, b, d]"
proof -
  from assms obtain a xs1 where 1: "xs = a # xs1" "length xs1 = 2" by (cases xs) auto
  then obtain b xs2 where 2: "xs1 = b # xs2" "length xs2 = 1" by (cases xs1) auto
  then obtain d where "xs2 = [d]" by (cases xs2) auto
  with 1 2 show ?thesis by simp
qed

lemma name_at_append:
  "j < length q \<Longrightarrow> name_at (p @ q) (int (length p) + int j) = Inr (q ! j)"
  by (simp add: name_at_def nth_append nat_add_distrib)

lemma ends_in_index0_append3:
  "ends_in_index0 (p @ [a, b, d]) = Inr (a = CHR ''['' \<and> b = CHR ''0'' \<and> d = CHR '']'')"
proof -
  have "name_at (p @ [a, b, d]) (int (length p)) = Inr a"
    using name_at_append [of 0 "[a, b, d]" p] by simp
  moreover have "name_at (p @ [a, b, d]) (int (length p) + 1) = Inr b"
    using name_at_append [of 1 "[a, b, d]" p] by simp
  moreover have "name_at (p @ [a, b, d]) (int (length p) + 2) = Inr d"
    using name_at_append [of 2 "[a, b, d]" p] by simp
  moreover have "int (length (p @ [a, b, d])) - 3 = int (length p)"
    "int (length (p @ [a, b, d])) - 2 = int (length p) + 1"
    "int (length (p @ [a, b, d])) - 1 = int (length p) + 2"
    by simp_all
  ultimately show ?thesis
    unfolding ends_in_index0_def Let_def by (simp only: sum.case if_not_P if_P split: if_splits) auto
qed

lemma ends_in_index0_iff:
  assumes "3 \<le> length s"
  shows "ends_in_index0 s = Inr (\<exists>p. s = p @ ''[0]'')"
proof -
  have "length (drop (length s - 3) s) = 3" using assms by simp
  then obtain a b d where "drop (length s - 3) s = [a, b, d]"
    using list_of_length3 by blast
  then obtain p0 where s: "s = p0 @ [a, b, d]"
    by (metis append_take_drop_id)
  show ?thesis
    unfolding s ends_in_index0_append3 by auto
qed

text \<open>
  C10 (evaluation at the failing input). For the one-character name \<open>x\<close> the source
  has \<open>c = 1\<close> and its condition starts with \<open>var.name[c-3]\<close>, position \<open>-2\<close>: the
  read is outside the string, and the record ends in the fault.
\<close>

theorem trailing_check_short_name:
  "trailing_reads ''x'' = [-2] \<and> \<not> in_bounds ''x'' (-2)
   \<and> ends_in_index0 ''x'' = Inl OutOfBoundsRead
   \<and> read_var \<lparr>res_type = eGL_FLOAT, res_location = 0, res_block_index = -1,
        res_array_size = 1, res_offset = -1, res_is_row_major = 0, res_name = ''x''\<rparr>
       = Inl OutOfBoundsRead"
  by (simp add: trailing_reads_def in_bounds_def ends_in_index0_def name_at_def read_var_def
      init_var_def classify_def float_types_def trim_name_def)

text \<open>
  C2 as the code has it. For a record the classifier accepts, with a name of three
  characters or more: when the name ends in \<open>[0]\<close> the suffix is taken off and the
  element count is the array size hint, raised to 1 when the hint is below 1; otherwise
  the name is kept and the element count is 0.
\<close>

theorem element_count_of_record:
  assumes "classify (res_type r) = Some vt" and "3 \<le> length (res_name r)"
  shows "\<exists>var. read_var r = Inr (Some var) \<and>
    (if \<exists>p. res_name r = p @ ''[0]''
     then name var = take (length (res_name r) - 3) (res_name r)
          \<and> elements (descriptor var) = nat (max 1 (res_array_size r))
     else name var = res_name r \<and> elements (descriptor var) = 0)"
  using assms
  by (cases "\<exists>p. res_name r = p @ ''[0]''")
     (simp_all add: read_var_def init_var_def trim_name_def ends_in_index0_iff)

theorem element_count_of_record_witness:
  "\<exists>var. read_var \<lparr>res_type = eGL_FLOAT_VEC4, res_location = 3, res_block_index = -1,
        res_array_size = 0, res_offset = -1, res_is_row_major = 0, res_name = ''lights[0]''\<rparr>
      = Inr (Some var) \<and> name var = ''lights'' \<and> elements (descriptor var) = 1"
  using element_count_of_record [of "\<lparr>res_type = eGL_FLOAT_VEC4, res_location = 3,
        res_block_index = -1, res_array_size = 0, res_offset = -1, res_is_row_major = 0,
        res_name = ''lights[0]''\<rparr>" eVar_Float]
  by (simp add: classify_def float_types_def)

text \<open>
  The claim of C2 as the specification words it fails: a name ending in \<open>[0]\<close> with
  hint 4 keeps the element count 4 (it is not forced to 0), and a name without the
  suffix and hint 1 gets the element count 0 (it is not clamped to 1).
\<close>

theorem element_count_counterexample:
  "map_sum id (map_option (\<lambda>var. (name var, elements (descriptor var))))
     (read_var \<lparr>res_type = eGL_FLOAT, res_location = 0, res_block_index = -1,
        res_array_size = 4, res_offset = -1, res_is_row_major = 0, res_name = ''arr[0]''\<rparr>)
     = Inr (Some (''arr'', 4))
   \<and> map_sum id (map_option (\<lambda>var. (name var, elements (descriptor var))))
     (read_var \<lparr>res_type = eGL_FLOAT, res_location = 0, res_block_index = -1,
        res_array_size = 1, res_offset = -1, res_is_row_major = 0, res_name = ''abc''\<rparr>)
     = Inr (Some (''abc'', 0))"
  by (simp add: read_var_def init_var_def classify_def float_types_def trim_name_def
      ends_in_index0_def name_at_def)

subsection \<open>Records without a parent block\<close>



subsection \<open>Array segments of a name\<close>







lemma next_segment_struct:
  assumes "\<not> list_ex is_sep B"
  shows "next_segment (B @ ''.'' @ rest) = Inr (Member B False 0 rest)"
proof -
  from assms(1) have B: "\<forall>ch\<in>set B. \<not> is_sep ch" by (simp add: list_ex_iff)
  have sep: "list_ex is_sep (B @ CHR ''.'' # rest)" by (simp add: list_ex_iff is_sep_def)
  have tw: "takeWhile (\<lambda>ch. \<not> is_sep ch) (B @ CHR ''.'' # rest) = B"
    using B by (simp add: takeWhile_append2 is_sep_def)
  have dw: "dropWhile (\<lambda>ch. \<not> is_sep ch) (B @ CHR ''.'' # rest) = CHR ''.'' # rest"
    using B by (simp add: dropWhile_append2 is_sep_def)
  have "next_segment (B @ CHR ''.'' # rest) = Inr (Member B False 0 rest)"
    unfolding next_segment_def using sep
    by (simp only: tw dw) simp
  then show ?thesis by simp
qed




lemma set_members_sel [simp]:
  "name (set_members ms m) = name m" "reg_vec (set_members ms m) = reg_vec m"
  "reg_comp (set_members ms m) = reg_comp m" "descriptor (set_members ms m) = descriptor m"
  "members (set_members ms m) = ms"
  by (cases m; simp)+

lemma set_name_sel [simp]:
  "name (set_name n m) = n" "reg_vec (set_name n m) = reg_vec m"
  "reg_comp (set_name n m) = reg_comp m" "descriptor (set_name n m) = descriptor m"
  "members (set_name n m) = members m"
  by (cases m; simp)+

lemma merge_parent_sel [simp]:
  "name (merge_parent pv m) = name m"
  "reg_vec (merge_parent pv m) = min (reg_vec m) (reg_vec pv)"
  "reg_comp (merge_parent pv m) = reg_comp m"
  "elements (descriptor (merge_parent pv m)) = max (elements (descriptor m)) (elements (descriptor pv))"
  "members (merge_parent pv m) = members m"
  by (cases m; simp)+







subsection \<open>The sorted lists\<close>







lemma storage_order_stable_sorted [simp]: "storage_order (stable_sorted v) = storage_order v"
  by (cases v) (simp add: storage_order_def)

















subsection \<open>Unique names and element counts\<close>


lemma names_unique_Nil [simp]: "names_unique []"
  by (simp add: names_unique_def)











lemma start_unique: "state_unique (uniform_start k)" "state_unique (buffer_start k)"
  by (simp_all add: state_unique_def uniform_start_def buffer_start_def)












lemma merge_parent_type_name [simp]:
  "type_name (descriptor (merge_parent pv m)) = type_name (descriptor m)"
  by (cases m) simp

lemma parent_var_type_name [simp]:
  "type_name (descriptor (parent_var var base isarray k)) = ''struct''"
  by (simp add: parent_var_def)

lemma node_at_Nil [simp]: "node_at q [] = None"
  by (cases q) simp_all











lemma list_at_warnings [simp]: "list_at (st\<lparr>warnings := ws\<rparr>) sl = list_at st sl"
  by (simp add: list_at_def split: slot.splits)

lemma list_at_default_update [simp]:
  "list_at (st\<lparr>defaultBlock := d\<rparr>) sl
     = (case sl of Default \<Rightarrow> d | Block b \<Rightarrow> list_at st (Block b))"
  by (simp add: list_at_def split: slot.splits)

lemma list_at_blocks_update [simp]:
  "list_at (st\<lparr>parentBlocks := bs\<rparr>) sl
     = (case sl of Default \<Rightarrow> list_at st Default
        | Block b \<Rightarrow> if b < length bs then Some (bs ! b) else None)"
  by (simp add: list_at_def split: slot.splits)








section \<open>Properties of the disassembly\<close>

subsection \<open>The loop over the instructions\<close>



















subsection \<open>A wrong magic number\<close>

lemma text_lines_not_Nil [simp]: "text_lines a \<noteq> []"
  by (induction a) (auto split: list.splits)

lemma text_lines_no_newline: "CHR 0x0A \<notin> set a \<Longrightarrow> text_lines a = [a]"
  by (induction a) auto

lemma text_lines_newline: "text_lines (CHR 0x0A # b) = [] # text_lines b"
  by (cases "text_lines b") simp_all

lemma text_lines_char:
  "ch \<noteq> CHR 0x0A \<Longrightarrow> text_lines (ch # b) = (ch # hd (text_lines b)) # tl (text_lines b)"
  by (cases "text_lines b") simp_all

lemma text_lines_append:
  "CHR 0x0A \<notin> set a \<Longrightarrow> text_lines (a @ CHR 0x0A # b) = a # text_lines b"
proof (induction a)
  case Nil
  show ?case by (simp only: append_Nil text_lines_newline)
next
  case (Cons ch a)
  then have "ch \<noteq> CHR 0x0A" and "text_lines (a @ CHR 0x0A # b) = a # text_lines b" by auto
  then show ?case by (simp add: text_lines_char del: text_lines.simps)
qed

lemma header_no_newline: "idx < length header \<Longrightarrow> CHR 0x0A \<notin> set (header ! idx @ '' SPIR-V:'')"
proof -
  have "list_all (\<lambda>h. CHR 0x0A \<notin> set (h @ '' SPIR-V:'')) header"
    by (simp add: header_def)
  moreover assume "idx < length header"
  ultimately show ?thesis by (simp add: list_all_length)
qed

text \<open>
  C6 as the code has it. For a stream whose first word is not the magic number the
  text is the title of the shader stage, an empty line, and one line with the
  diagnostic and the value of the first word; nothing after the first word is decoded:
  the text is the same for the first word alone.
\<close>

theorem magic_mismatch:
  assumes "idx < length header" and "spirv \<noteq> []" and "spirv ! 0 \<noteq> MagicNumber env"
  shows "DisassembleSPIRV env idx spirv
      = Some (Inr (header ! idx @ '' SPIR-V:'' @ newline @ newline
                   @ ''Unrecognised magic number '' @ fmt_08x env (spirv ! 0)))
    \<and> DisassembleSPIRV env idx spirv = DisassembleSPIRV env idx [spirv ! 0]
    \<and> (CHR 0x0A \<notin> set (fmt_08x env (spirv ! 0)) \<longrightarrow>
         map_option (map_sum id text_lines) (DisassembleSPIRV env idx spirv)
           = Some (Inr [header ! idx @ '' SPIR-V:'', [],
                        ''Unrecognised magic number '' @ fmt_08x env (spirv ! 0)]))"
proof (intro conjI impI)
  show out: "DisassembleSPIRV env idx spirv
      = Some (Inr (header ! idx @ '' SPIR-V:'' @ newline @ newline
                   @ ''Unrecognised magic number '' @ fmt_08x env (spirv ! 0)))"
    using assms by (simp add: DisassembleSPIRV_def)
  show "DisassembleSPIRV env idx spirv = DisassembleSPIRV env idx [spirv ! 0]"
    using assms by (simp add: DisassembleSPIRV_def)
  assume nl: "CHR 0x0A \<notin> set (fmt_08x env (spirv ! 0))"
  let ?diag = "''Unrecognised magic number '' @ fmt_08x env (spirv ! 0)"
  from nl have "CHR 0x0A \<notin> set ?diag" by simp
  then have d: "text_lines ?diag = [?diag]" by (rule text_lines_no_newline)
  have "text_lines ((header ! idx @ '' SPIR-V:'') @ CHR 0x0A # (CHR 0x0A # ?diag))
      = (header ! idx @ '' SPIR-V:'') # text_lines (CHR 0x0A # ?diag)"
    using header_no_newline [OF assms(1)] by (rule text_lines_append)
  also have "text_lines (CHR 0x0A # ?diag) = [] # text_lines ?diag"
    by (rule text_lines_newline)
  finally have "text_lines ((header ! idx @ '' SPIR-V:'') @ CHR 0x0A # (CHR 0x0A # ?diag))
      = [header ! idx @ '' SPIR-V:'', [], ?diag]"
    by (simp only: d)
  then show "map_option (map_sum id text_lines) (DisassembleSPIRV env idx spirv)
           = Some (Inr [header ! idx @ '' SPIR-V:'', [],
                        ''Unrecognised magic number '' @ fmt_08x env (spirv ! 0)])"
    by (simp add: out newline_def)
qed

theorem magic_mismatch_witness:
  "DisassembleSPIRV example_env 4 [0x0badf00d, 99, 0x051a00bb, 8, 0, 0x00030001, 2, 450]
     = Some (Inr (''Fragment Shader SPIR-V:'' @ newline @ newline
                  @ ''Unrecognised magic number 0badf00d''))"
proof -
  have "(4::nat) < length header" by (simp add: header_def)
  moreover have "[0x0badf00d, 99, 0x051a00bb, 8, 0, 0x00030001, 2, 450] \<noteq> ([] :: 32 word list)"
    by simp
  moreover have "[0x0badf00d, 99, 0x051a00bb, 8, 0, 0x00030001, 2, 450] ! 0 \<noteq> MagicNumber example_env"
    by (simp add: example_env_def)
  ultimately have "DisassembleSPIRV example_env 4 [0x0badf00d, 99, 0x051a00bb, 8, 0, 0x00030001, 2, 450]
      = Some (Inr (header ! 4 @ '' SPIR-V:'' @ newline @ newline
                   @ ''Unrecognised magic number ''
                   @ fmt_08x example_env ([0x0badf00d, 99, 0x051a00bb, 8, 0, 0x00030001, 2, 450] ! 0)))"
    by (rule magic_mismatch [THEN conjunct1])
  moreover have "fmt_08x example_env (0x0badf00d :: 32 word) = ''0badf00d''"
    by code_simp
  ultimately show ?thesis by (simp add: header_def)
qed

text \<open>
  The claim of C6 that the text is exactly one line fails: the title and the empty
  line come before the diagnostic, three lines in all.
\<close>

theorem magic_mismatch_counterexample:
  "map_option (map_sum id text_lines) (DisassembleSPIRV example_env 0 [0x0badf00d])
     = Some (Inr [''Vertex Shader SPIR-V:'', [], ''Unrecognised magic number 0badf00d''])
   \<and> length [''Vertex Shader SPIR-V:'', [], ''Unrecognised magic number 0badf00d''] = 3"
  by code_simp


subsection \<open>Numbers of the lines\<close>








end
